theory Spec2Isabelle
  imports Main "HOL-Library.Word"
begin

section \<open>Python values\<close>

text \<open>
  The program is \<^verbatim>\<open>src/streamlit_app.py\<close>: the function \<^verbatim>\<open>markdown_to_pdf_bytes\<close>
  (lines 21-154) and the script's conversion logic (lines 176-194).

  A Python \<^verbatim>\<open>str\<close> is a sequence of Unicode code points and a \<^verbatim>\<open>bytes\<close> a sequence of
  octets. The literals of the source are ASCII; \<open>ascii\<close> reads an Isabelle string as
  the \<^verbatim>\<open>str\<close> with the same characters.
\<close>

type_synonym py_str = "nat list"

type_synonym bytes = "8 word list"

definition ascii :: "string \<Rightarrow> py_str" where
  "ascii s = map of_char s"

text \<open>
  Exceptions. \<open>UnicodeEncodeError c i\<close> is what \<^verbatim>\<open>str.encode\<close> raises at the code point
  \<open>c\<close> in position \<open>i\<close>; \<open>NameError\<close> and \<open>SyntaxError\<close> belong to the f-string. The two
  libraries are not part of the repository, so their exceptions are classified only as
  far as the handler of line 152 looks at them: \<open>Lib_Exception cls m\<close> is an instance of
  a class \<open>cls\<close> derived from \<^verbatim>\<open>Exception\<close>, with \<^verbatim>\<open>str(e) = m\<close>, and \<open>Lib_BaseException cls m\<close>
  is an instance of a class derived from \<^verbatim>\<open>BaseException\<close> but not from \<^verbatim>\<open>Exception\<close>
  (\<^verbatim>\<open>KeyboardInterrupt\<close>, \<^verbatim>\<open>SystemExit\<close>, \<^verbatim>\<open>GeneratorExit\<close>). \<open>is_Exception e\<close> is
  \<^verbatim>\<open>isinstance(e, Exception)\<close>.
\<close>

datatype py_exception =
    UnicodeEncodeError nat nat
  | NameError string
  | SyntaxError
  | Lib_Exception string py_str
  | Lib_BaseException string py_str

fun is_Exception :: "py_exception \<Rightarrow> bool" where
  "is_Exception (UnicodeEncodeError c i) = True"
| "is_Exception (NameError n) = True"
| "is_Exception SyntaxError = True"
| "is_Exception (Lib_Exception cls m) = True"
| "is_Exception (Lib_BaseException cls m) = False"

datatype 'a result = Raise py_exception | Return 'a

subsection \<open>\<^verbatim>\<open>str.strip\<close>\<close>

text \<open>
  \<^verbatim>\<open>str.isspace\<close> of one code point, and \<^verbatim>\<open>str.strip()\<close> without arguments, which
  removes the leading and the trailing whitespace.
\<close>

definition isspace :: "nat \<Rightarrow> bool" where
  "isspace c \<longleftrightarrow>
     (0x09 \<le> c \<and> c \<le> 0x0D) \<or> (0x1C \<le> c \<and> c \<le> 0x20) \<or> c = 0x85 \<or> c = 0xA0 \<or>
     c = 0x1680 \<or> (0x2000 \<le> c \<and> c \<le> 0x200A) \<or> c = 0x2028 \<or> c = 0x2029 \<or>
     c = 0x202F \<or> c = 0x205F \<or> c = 0x3000"

definition strip :: "py_str \<Rightarrow> py_str" where
  "strip s = rev (dropWhile isspace (rev (dropWhile isspace s)))"

subsection \<open>\<^verbatim>\<open>str.encode('utf-8')\<close>\<close>

text \<open>
  The encoding of one code point; a surrogate (U+D800 to U+DFFF) has none, and
  \<^verbatim>\<open>encode\<close> raises \<^verbatim>\<open>UnicodeEncodeError\<close> at the first one.
\<close>

definition utf8_char :: "nat \<Rightarrow> bytes option" where
  "utf8_char c =
     (if c < 0x80 then Some [of_nat c]
      else if c < 0x800 then Some [of_nat (0xC0 + c div 64), of_nat (0x80 + c mod 64)]
      else if c < 0x10000 then
        (if 0xD800 \<le> c \<and> c \<le> 0xDFFF then None
         else Some [of_nat (0xE0 + c div 4096), of_nat (0x80 + c div 64 mod 64),
                    of_nat (0x80 + c mod 64)])
      else Some [of_nat (0xF0 + c div 262144), of_nat (0x80 + c div 4096 mod 64),
                 of_nat (0x80 + c div 64 mod 64), of_nat (0x80 + c mod 64)])"

fun encode_from :: "nat \<Rightarrow> py_str \<Rightarrow> bytes result" where
  "encode_from i [] = Return []"
| "encode_from i (c # cs) =
     (case utf8_char c of
        None \<Rightarrow> Raise (UnicodeEncodeError c i)
      | Some bs \<Rightarrow>
          (case encode_from (Suc i) cs of
             Raise e \<Rightarrow> Raise e
           | Return r \<Rightarrow> Return (bs @ r)))"

definition encode_utf8 :: "py_str \<Rightarrow> bytes result" where
  "encode_utf8 s = encode_from 0 s"

subsection \<open>\<^verbatim>\<open>io.BytesIO\<close>\<close>

record bytes_io =
  contents :: bytes
  position :: nat

definition BytesIO :: bytes_io where
  "BytesIO = \<lparr>contents = [], position = 0\<rparr>"

definition seek :: "bytes_io \<Rightarrow> nat \<Rightarrow> bytes_io" where
  "seek b n = b\<lparr>position := n\<rparr>"

definition getvalue :: "bytes_io \<Rightarrow> bytes" where
  "getvalue b = contents b"

section \<open>The f-string of lines 31-134\<close>

text \<open>
  An f-string is literal text in which \<^verbatim>\<open>{{\<close> and \<^verbatim>\<open>}}\<close> stand for one brace and
  \<^verbatim>\<open>{name}\<close> is replaced by the value of the variable (the only form of replacement
  field the source uses). \<open>fstring_tokens\<close> reads the text from left to right;
  a brace that opens or closes nothing is a \<^verbatim>\<open>SyntaxError\<close>.
\<close>

datatype ftoken = Chr char | Replacement_field string | Syntax_error

function fstring_tokens :: "string \<Rightarrow> ftoken list" where
  "fstring_tokens [] = []"
| "fstring_tokens (c # cs) =
     (if c = CHR ''{'' then
        (case cs of
           [] \<Rightarrow> [Syntax_error]
         | d # ds \<Rightarrow>
             if d = CHR ''{'' then Chr CHR ''{'' # fstring_tokens ds
             else (case dropWhile (\<lambda>x. x \<noteq> CHR ''}'') cs of
                     [] \<Rightarrow> [Syntax_error]
                   | _ # rest \<Rightarrow>
                       Replacement_field (takeWhile (\<lambda>x. x \<noteq> CHR ''}'') cs) #
                       fstring_tokens rest))
      else if c = CHR ''}'' then
        (case cs of
           [] \<Rightarrow> [Syntax_error]
         | d # ds \<Rightarrow>
             if d = CHR ''}'' then Chr CHR ''}'' # fstring_tokens ds
             else [Syntax_error])
      else Chr c # fstring_tokens cs)"
  by pat_completeness auto
termination
proof (relation "measure length", goal_cases)
  case 1
  show ?case by simp
next
  case (2 c cs d ds)
  then show ?case by simp
next
  case (3 c cs d ds x rest)
  have "length (dropWhile (\<lambda>x. x \<noteq> CHR ''}'') cs) \<le> length cs"
    by (rule length_dropWhile_le)
  with 3 show ?case by simp
next
  case (4 c cs d ds)
  then show ?case by simp
next
  case (5 c cs)
  then show ?case by simp
qed

fun fstring_eval :: "ftoken list \<Rightarrow> (string \<rightharpoonup> py_str) \<Rightarrow> py_str result" where
  "fstring_eval [] env = Return []"
| "fstring_eval (Chr c # ts) env =
     (case fstring_eval ts env of
        Raise e \<Rightarrow> Raise e
      | Return r \<Rightarrow> Return (of_char c # r))"
| "fstring_eval (Replacement_field n # ts) env =
     (case env n of
        None \<Rightarrow> Raise (NameError n)
      | Some v \<Rightarrow>
          (case fstring_eval ts env of
             Raise e \<Rightarrow> Raise e
           | Return r \<Rightarrow> Return (v @ r)))"
| "fstring_eval (Syntax_error # ts) env = Raise SyntaxError"

definition fstring :: "string \<Rightarrow> (string \<rightharpoonup> py_str) \<Rightarrow> py_str result" where
  "fstring src env =
     (let ts = fstring_tokens src
      in if Syntax_error \<in> set ts then Raise SyntaxError else fstring_eval ts env)"

text \<open>
  The text between the triple quotes of lines 31 and 134, line by line as the source
  has it (every line but the last ends with a newline).
\<close>

definition html_template_lines :: "string list" where
  "html_template_lines =
    [''\<newline>'',
     ''        <!DOCTYPE html>\<newline>'',
     ''        <html>\<newline>'',
     ''        <head>\<newline>'',
     ''            <meta charset=\"UTF-8\">\<newline>'',
     ''            <style>\<newline>'',
     ''                /* --- Global Compact Settings --- */\<newline>'',
     ''                body {{\<newline>'',
     ''                    font-family: Arial, Helvetica, sans-serif;\<newline>'',
     ''                    line-height: 1.2; /* Reduced line height */\<newline>'',
     ''                    font-size: 9pt;   /* Reduced base font size */\<newline>'',
     ''                    margin: 0.2in;    /* Explicit page margins (adjust if needed) */\<newline>'',
     ''                }}\<newline>'',
     ''                p {{\<newline>'',
     ''                    margin-top: 0;      /* Remove top margin */\<newline>'',
     ''                    margin-bottom: 0.08em; /* Very small bottom margin */\<newline>'',
     ''                    padding: 0;\<newline>'',
     ''                }}\<newline>'',
     ''                ul, ol {{\<newline>'',
     ''                    padding-left: 18px; /* Slightly reduce indent */\<newline>'',
     ''                    margin-top: 0.05em; /* Very small top margin */\<newline>'',
     ''                    margin-bottom: 0.1em; /* Reduced bottom margin */\<newline>'',
     ''                    padding-top: 0;\<newline>'',
     ''                    padding-bottom: 0;\<newline>'',
     ''                }}\<newline>'',
     ''                li {{\<newline>'',
     ''                    margin-top: 0;\<newline>'',
     ''                    margin-bottom: 0; /* No space between list items */\<newline>'',
     ''                    padding-top: 0;\<newline>'',
     ''                    padding-bottom: 0;\<newline>'',
     ''                }}\<newline>'',
     ''\<newline>'',
     ''                /* --- Compact Heading Styles --- */\<newline>'',
     ''                h1 {{\<newline>'',
     ''                    margin-top: 0;\<newline>'',
     ''                    margin-bottom: 0.1em; /* Minimal space after H1 */\<newline>'',
     ''                    padding-bottom: 0;\<newline>'',
     ''                    text-align: center;\<newline>'',
     ''                    font-size: 1.6em; /* Slightly Reduced */\<newline>'',
     ''                    line-height: 1.2;\<newline>'',
     ''                }}\<newline>'',
     ''\<newline>'',
     ''                h2 {{\<newline>'',
     ''                    font-size: 1.15em; /* Reduced */\<newline>'',
     ''                    margin-top: 0.6em;  /* Significantly Reduced space above section */\<newline>'',
     ''                    margin-bottom: 0.1em;/* Reduced space below heading text */\<newline>'',
     ''                    padding-bottom: 0.05em;/* Reduced space between text and line */\<newline>'',
     ''                    border-bottom: 0.5px solid #ccc; /* Thinner border */\<newline>'',
     ''                    line-height: 1.2;\<newline>'',
     ''                }}\<newline>'',
     ''\<newline>'',
     ''                h3, h4, h5, h6 {{\<newline>'',
     ''                    font-size: 1.0em; /* Reduced */\<newline>'',
     ''                    margin-top: 0.4em; /* Reduced */\<newline>'',
     ''                    margin-bottom: 0.05em; /* Very small */\<newline>'',
     ''                    line-height: 1.2;\<newline>'',
     ''                    padding: 0;\<newline>'',
     ''                    font-weight: bold;\<newline>'',
     ''                }}\<newline>'',
     ''                /* --- END Compact Heading Styles --- */\<newline>'',
     ''\<newline>'',
     ''                /* --- Other Element Styles (mostly unchanged unless vertical space is affected) --- */\<newline>'',
     ''                code {{\<newline>'',
     ''                    background-color: #f0f0f0; padding: 1px 3px; /* Slightly smaller padding */\<newline>'',
     ''                    border-radius: 3px; font-family: monospace; font-size: 0.9em;\<newline>'',
     ''                }}\<newline>'',
     ''                pre {{\<newline>'',
     ''                    background-color: #f0f0f0; padding: 5px; /* Reduced padding */\<newline>'',
     ''                    border-radius: 4px; overflow-x: auto; font-family: monospace;\<newline>'',
     ''                    font-size: 0.85em; /* Slightly smaller code block font */\<newline>'',
     ''                    white-space: pre-wrap; word-wrap: break-word;\<newline>'',
     ''                    margin-top: 0.3em; margin-bottom: 0.3em; /* Reduced margins */\<newline>'',
     ''                }}\<newline>'',
     ''                blockquote {{\<newline>'',
     ''                    border-left: 2px solid #ccc; /* Thinner border */\<newline>'',
     ''                    padding-left: 10px; /* Reduced padding */\<newline>'',
     ''                    margin-left: 0; margin-top: 0.3em; margin-bottom: 0.3em; /* Reduced margins */\<newline>'',
     ''                    color: #555; font-size: 0.95em;\<newline>'',
     ''                }}\<newline>'',
     ''                table {{\<newline>'',
     ''                    border-collapse: collapse; width: 100%; margin-bottom: 0.5em; /* Reduced margin */\<newline>'',
     ''                    border: 1px solid #ddd;\<newline>'',
     ''                }}\<newline>'',
     ''                th, td {{\<newline>'',
     ''                    border: 1px solid #ddd; padding: 4px; /* Reduced padding */\<newline>'',
     ''                    text-align: left; font-size: 0.9em; /* Slightly smaller table text */\<newline>'',
     ''                }}\<newline>'',
     ''                th {{ background-color: #f2f2f2; font-weight: bold; }}\<newline>'',
     ''                img {{ max-width: 100%; height: auto; display: block; margin-top: 0.5em; margin-bottom: 0.5em; }} /* Reduced margins */\<newline>'',
     ''                a {{ color: #0066cc; text-decoration: none; }}\<newline>'',
     ''                a:hover {{ text-decoration: underline; }}\<newline>'',
     ''\<newline>'',
     ''                /* Explicit Page Margins (Optional but can help) */\<newline>'',
     ''                @page {{\<newline>'',
     ''                    margin: 0.2in; /* Adjust overall page margins */\<newline>'',
     ''                }}\<newline>'',
     ''\<newline>'',
     ''            </style>\<newline>'',
     ''        </head>\<newline>'',
     ''        <body>\<newline>'',
     ''            {html_content}\<newline>'',
     ''        </body>\<newline>'',
     ''        </html>\<newline>'',
     ''        '']"

definition html_template_src :: string where
  "html_template_src = concat html_template_lines"

definition html_template :: "py_str \<Rightarrow> py_str result" where
  "html_template html_content = fstring html_template_src [''html_content'' \<mapsto> html_content]"

section \<open>The two libraries\<close>

text \<open>
  \<^verbatim>\<open>markdown.markdown\<close> (Python-Markdown) and \<^verbatim>\<open>pisa.CreatePDF\<close> (xhtml2pdf) are not code
  of the repository: they are parameters of the model. The parser takes the text and
  the list of extension names and returns the HTML or raises. The layout engine takes
  the document, the destination buffer and the name of the encoding; it returns its
  context object, whose field \<^verbatim>\<open>err\<close> the function reads, or raises, and in both cases
  leaves the destination buffer in some state, written to or not. What HTML the parser
  makes of a given text, and what PDF the engine makes of a document, is decided inside
  the libraries; the properties below hold for whatever they answer.
\<close>

record pisa_context =
  err :: int

type_synonym markdown_fn = "py_str \<Rightarrow> string list \<Rightarrow> py_str result"

type_synonym create_pdf_fn = "bytes \<Rightarrow> bytes_io \<Rightarrow> string \<Rightarrow> pisa_context result \<times> bytes_io"

section \<open>What a call does besides returning\<close>

text \<open>
  A call leaves a trace: the calls into the two libraries with their arguments, and
  the records handed to \<^verbatim>\<open>logging\<close>. A log record is its level, the literal text of the
  message, the value interpolated after it, and the \<^verbatim>\<open>exc_info\<close> flag.
\<close>

datatype level = INFO | ERROR

datatype log_arg = Arg_none | Arg_int int | Arg_exception py_exception

datatype event =
    Call_markdown py_str "string list"
  | Call_CreatePDF bytes bytes_io string
  | Log level string log_arg bool



section \<open>\<^verbatim>\<open>markdown_to_pdf_bytes\<close> (lines 21-154)\<close>

text \<open>
  The body of the \<^verbatim>\<open>try\<close> statement, lines 25-150, with the buffer of line 23. The
  result is what the block does: it raises, or it returns \<^verbatim>\<open>None\<close> (line 146) or the
  bytes of the buffer (line 150).
\<close>

definition try_block ::
  "markdown_fn \<Rightarrow> create_pdf_fn \<Rightarrow> bytes_io \<Rightarrow> py_str \<Rightarrow> bytes option result \<times> event list" where
  "try_block markdown CreatePDF pdf_buffer markdown_string =
     (let called_markdown = [Call_markdown markdown_string [''extra'', ''smarty'', ''fenced_code'']]
      in case markdown markdown_string [''extra'', ''smarty'', ''fenced_code''] of
           Raise e \<Rightarrow> (Raise e, called_markdown)
         | Return html_content \<Rightarrow>
             (case html_template html_content of
                Raise e \<Rightarrow> (Raise e, called_markdown)
              | Return document \<Rightarrow>
                  (case encode_utf8 document of
                     Raise e \<Rightarrow> (Raise e, called_markdown)
                   | Return src \<Rightarrow>
                       (let called = called_markdown @ [Call_CreatePDF src pdf_buffer ''utf-8'']
                        in case CreatePDF src pdf_buffer ''utf-8'' of
                             (Raise e, written) \<Rightarrow> (Raise e, called)
                           | (Return pisa_status, written) \<Rightarrow>
                               if err pisa_status \<noteq> 0
                               then (Return None,
                                     called @ [Log ERROR ''xhtml2pdf Error converting to PDF: ''
                                                 (Arg_int (err pisa_status)) False])
                               else (Return (Some (getvalue (seek written 0))),
                                     called @ [Log INFO ''PDF conversion successful (compact styling).''
                                                 Arg_none False])))))"

text \<open>
  The function: a new buffer, the block, and the handler \<^verbatim>\<open>except Exception as e\<close> of
  lines 152-154, which logs and returns \<^verbatim>\<open>None\<close>. An exception that is not an instance
  of \<^verbatim>\<open>Exception\<close> does not match the handler and leaves the function.
\<close>

definition markdown_to_pdf_bytes ::
  "markdown_fn \<Rightarrow> create_pdf_fn \<Rightarrow> py_str \<Rightarrow> bytes option result \<times> event list" where
  "markdown_to_pdf_bytes markdown CreatePDF markdown_string =
     (let pdf_buffer = BytesIO
      in case try_block markdown CreatePDF pdf_buffer markdown_string of
           (Raise e, trace) \<Rightarrow>
             if is_Exception e
             then (Return None,
                   trace @ [Log ERROR ''An unexpected error occurred during PDF conversion: ''
                              (Arg_exception e) True])
             else (Raise e, trace)
         | (Return r, trace) \<Rightarrow> (Return r, trace))"

section \<open>The conversion logic of the script (lines 176-194)\<close>

text \<open>
  What the script shows when it runs with the given state of the button and of the
  text area; \<open>timestamp\<close> is the clock reading of line 185, already formatted.
\<close>

datatype st_element =
    St_warning py_str
  | St_spinner py_str
  | St_success py_str
  | St_download_button py_str bytes py_str string
  | St_error py_str

definition conversion_logic ::
  "markdown_fn \<Rightarrow> create_pdf_fn \<Rightarrow> bool \<Rightarrow> py_str \<Rightarrow> py_str \<Rightarrow>
     st_element list result \<times> event list" where
  "conversion_logic markdown CreatePDF convert_button markdown_input timestamp =
     (if convert_button then
        if strip markdown_input = []
        then (Return [St_warning ([0x26A0, 0xFE0F] @
                 ascii '' Please enter some Markdown text in the input area first.'')], [])
        else
          (let spinner = St_spinner ([0x2699, 0xFE0F] @
                 ascii '' Converting Markdown to PDF (compact style)... Please wait.'')
           in case markdown_to_pdf_bytes markdown CreatePDF markdown_input of
                (Raise e, trace) \<Rightarrow> (Raise e, trace)
              | (Return None, trace) \<Rightarrow>
                  (Return [spinner, St_error ([0x274C] @ ascii
                     '' PDF Conversion Failed. Check logs if running locally for more details.'')],
                   trace)
              | (Return (Some pdf_bytes), trace) \<Rightarrow>
                  if pdf_bytes \<noteq> []
                  then (Return [spinner,
                          St_success ([0x2705] @ ascii '' Conversion Successful!''),
                          St_download_button ([0x2B07, 0xFE0F] @ ascii '' Download PDF'') pdf_bytes
                            (ascii ''converted_markdown_'' @ timestamp @ ascii ''.pdf'')
                            ''application/pdf''],
                        trace)
                  else (Return [spinner, St_error ([0x274C] @ ascii
                     '' PDF Conversion Failed. Check logs if running locally for more details.'')],
                   trace))
      else (Return [], []))"

section \<open>The document shell and its stylesheet\<close>

text \<open>
  The text the f-string denotes, with every doubled brace read as one: the lines up to
  and including \<^verbatim>\<open><style>\<close>, the lines of the stylesheet (source lines 37-127), the lines
  from \<^verbatim>\<open></style>\<close> to the indentation in front of the replacement field, and what follows
  the field.
\<close>

definition shell_open_lines :: "string list" where
  "shell_open_lines =
    [''\<newline>'',
     ''        <!DOCTYPE html>\<newline>'',
     ''        <html>\<newline>'',
     ''        <head>\<newline>'',
     ''            <meta charset=\"UTF-8\">\<newline>'',
     ''            <style>\<newline>'']"

definition stylesheet_lines :: "string list" where
  "stylesheet_lines =
    [''                /* --- Global Compact Settings --- */\<newline>'',
     ''                body {\<newline>'',
     ''                    font-family: Arial, Helvetica, sans-serif;\<newline>'',
     ''                    line-height: 1.2; /* Reduced line height */\<newline>'',
     ''                    font-size: 9pt;   /* Reduced base font size */\<newline>'',
     ''                    margin: 0.2in;    /* Explicit page margins (adjust if needed) */\<newline>'',
     ''                }\<newline>'',
     ''                p {\<newline>'',
     ''                    margin-top: 0;      /* Remove top margin */\<newline>'',
     ''                    margin-bottom: 0.08em; /* Very small bottom margin */\<newline>'',
     ''                    padding: 0;\<newline>'',
     ''                }\<newline>'',
     ''                ul, ol {\<newline>'',
     ''                    padding-left: 18px; /* Slightly reduce indent */\<newline>'',
     ''                    margin-top: 0.05em; /* Very small top margin */\<newline>'',
     ''                    margin-bottom: 0.1em; /* Reduced bottom margin */\<newline>'',
     ''                    padding-top: 0;\<newline>'',
     ''                    padding-bottom: 0;\<newline>'',
     ''                }\<newline>'',
     ''                li {\<newline>'',
     ''                    margin-top: 0;\<newline>'',
     ''                    margin-bottom: 0; /* No space between list items */\<newline>'',
     ''                    padding-top: 0;\<newline>'',
     ''                    padding-bottom: 0;\<newline>'',
     ''                }\<newline>'',
     ''\<newline>'',
     ''                /* --- Compact Heading Styles --- */\<newline>'',
     ''                h1 {\<newline>'',
     ''                    margin-top: 0;\<newline>'',
     ''                    margin-bottom: 0.1em; /* Minimal space after H1 */\<newline>'',
     ''                    padding-bottom: 0;\<newline>'',
     ''                    text-align: center;\<newline>'',
     ''                    font-size: 1.6em; /* Slightly Reduced */\<newline>'',
     ''                    line-height: 1.2;\<newline>'',
     ''                }\<newline>'',
     ''\<newline>'',
     ''                h2 {\<newline>'',
     ''                    font-size: 1.15em; /* Reduced */\<newline>'',
     ''                    margin-top: 0.6em;  /* Significantly Reduced space above section */\<newline>'',
     ''                    margin-bottom: 0.1em;/* Reduced space below heading text */\<newline>'',
     ''                    padding-bottom: 0.05em;/* Reduced space between text and line */\<newline>'',
     ''                    border-bottom: 0.5px solid #ccc; /* Thinner border */\<newline>'',
     ''                    line-height: 1.2;\<newline>'',
     ''                }\<newline>'',
     ''\<newline>'',
     ''                h3, h4, h5, h6 {\<newline>'',
     ''                    font-size: 1.0em; /* Reduced */\<newline>'',
     ''                    margin-top: 0.4em; /* Reduced */\<newline>'',
     ''                    margin-bottom: 0.05em; /* Very small */\<newline>'',
     ''                    line-height: 1.2;\<newline>'',
     ''                    padding: 0;\<newline>'',
     ''                    font-weight: bold;\<newline>'',
     ''                }\<newline>'',
     ''                /* --- END Compact Heading Styles --- */\<newline>'',
     ''\<newline>'',
     ''                /* --- Other Element Styles (mostly unchanged unless vertical space is affected) --- */\<newline>'',
     ''                code {\<newline>'',
     ''                    background-color: #f0f0f0; padding: 1px 3px; /* Slightly smaller padding */\<newline>'',
     ''                    border-radius: 3px; font-family: monospace; font-size: 0.9em;\<newline>'',
     ''                }\<newline>'',
     ''                pre {\<newline>'',
     ''                    background-color: #f0f0f0; padding: 5px; /* Reduced padding */\<newline>'',
     ''                    border-radius: 4px; overflow-x: auto; font-family: monospace;\<newline>'',
     ''                    font-size: 0.85em; /* Slightly smaller code block font */\<newline>'',
     ''                    white-space: pre-wrap; word-wrap: break-word;\<newline>'',
     ''                    margin-top: 0.3em; margin-bottom: 0.3em; /* Reduced margins */\<newline>'',
     ''                }\<newline>'',
     ''                blockquote {\<newline>'',
     ''                    border-left: 2px solid #ccc; /* Thinner border */\<newline>'',
     ''                    padding-left: 10px; /* Reduced padding */\<newline>'',
     ''                    margin-left: 0; margin-top: 0.3em; margin-bottom: 0.3em; /* Reduced margins */\<newline>'',
     ''                    color: #555; font-size: 0.95em;\<newline>'',
     ''                }\<newline>'',
     ''                table {\<newline>'',
     ''                    border-collapse: collapse; width: 100%; margin-bottom: 0.5em; /* Reduced margin */\<newline>'',
     ''                    border: 1px solid #ddd;\<newline>'',
     ''                }\<newline>'',
     ''                th, td {\<newline>'',
     ''                    border: 1px solid #ddd; padding: 4px; /* Reduced padding */\<newline>'',
     ''                    text-align: left; font-size: 0.9em; /* Slightly smaller table text */\<newline>'',
     ''                }\<newline>'',
     ''                th { background-color: #f2f2f2; font-weight: bold; }\<newline>'',
     ''                img { max-width: 100%; height: auto; display: block; margin-top: 0.5em; margin-bottom: 0.5em; } /* Reduced margins */\<newline>'',
     ''                a { color: #0066cc; text-decoration: none; }\<newline>'',
     ''                a:hover { text-decoration: underline; }\<newline>'',
     ''\<newline>'',
     ''                /* Explicit Page Margins (Optional but can help) */\<newline>'',
     ''                @page {\<newline>'',
     ''                    margin: 0.2in; /* Adjust overall page margins */\<newline>'',
     ''                }\<newline>'',
     ''\<newline>'']"

definition shell_mid_lines :: "string list" where
  "shell_mid_lines =
    [''            </style>\<newline>'',
     ''        </head>\<newline>'',
     ''        <body>\<newline>'',
     ''            '']"

definition shell_close_lines :: "string list" where
  "shell_close_lines =
    [''\<newline>'',
     ''        </body>\<newline>'',
     ''        </html>\<newline>'',
     ''        '']"

definition stylesheet :: string where
  "stylesheet = concat stylesheet_lines"

definition html_prefix :: string where
  "html_prefix = concat shell_open_lines @ stylesheet @ concat shell_mid_lines"

definition html_suffix :: string where
  "html_suffix = concat shell_close_lines"

section \<open>Notions the properties are stated with\<close>

text \<open>
  The UTF-8 encoding as a total function, and the strings that have one: \<open>encode_utf8\<close>
  returns \<open>utf8_bytes s\<close> when \<open>encodable s\<close> and raises otherwise.
\<close>

definition utf8_bytes :: "py_str \<Rightarrow> bytes" where
  "utf8_bytes s = concat (map (\<lambda>c. case utf8_char c of None \<Rightarrow> [] | Some bs \<Rightarrow> bs) s)"

definition encodable :: "py_str \<Rightarrow> bool" where
  "encodable s = list_all (\<lambda>c. utf8_char c \<noteq> None) s"

text \<open>
  \<open>renders markdown CreatePDF s outcome written\<close>: on the input \<open>s\<close> the parser returns,
  the styled document is built and encoded, and the layout engine, called on it with
  an empty buffer, ends with \<open>outcome\<close> and leaves the buffer as \<open>written\<close>.
\<close>

definition renders ::
  "markdown_fn \<Rightarrow> create_pdf_fn \<Rightarrow> py_str \<Rightarrow> pisa_context result \<Rightarrow> bytes_io \<Rightarrow> bool" where
  "renders markdown CreatePDF s outcome written \<longleftrightarrow>
     (\<exists>html_content document src.
        markdown s [''extra'', ''smarty'', ''fenced_code''] = Return html_content \<and>
        html_template html_content = Return document \<and>
        encode_utf8 document = Return src \<and>
        CreatePDF src BytesIO ''utf-8'' = (outcome, written))"



subsection \<open>Library behaviours for the examples\<close>

text \<open>
  Stand-ins for the two libraries, used where a property is shown at a concrete input:
  a parser that wraps the text into one paragraph, a parser that raises; an engine that
  appends four bytes to the buffer and reports no error, one that replaces the contents
  of the buffer by these four bytes and reports no error, one that appends the four
  bytes and a fifth that stands for a timestamp, one that writes one byte and
  reports an error, one that writes one byte and raises, and one that writes nothing
  and reports no error.
\<close>

definition markdown_paragraph :: markdown_fn where
  "markdown_paragraph s exts = Return (ascii ''<p>'' @ s @ ascii ''</p>'')"


definition pdf_magic :: bytes where
  "pdf_magic = [0x25, 0x50, 0x44, 0x46]"

definition pisa_writing :: create_pdf_fn where
  "pisa_writing src dest enc =
     (Return \<lparr>err = 0\<rparr>, dest\<lparr>contents := contents dest @ pdf_magic,
                                position := length (contents dest @ pdf_magic)\<rparr>)"






subsection \<open>Reading a stylesheet\<close>

text \<open>
  What a stylesheet declares is read off its text: comments \<^verbatim>\<open>/* ... */\<close> are dropped, the
  rest is cut at every \<^verbatim>\<open>{\<close>, \<^verbatim>\<open>;\<close> and \<^verbatim>\<open>}\<close>, and the pieces are put together into rules: a
  piece in front of \<^verbatim>\<open>{\<close> is a list of selectors separated by commas, a piece in front
  of \<^verbatim>\<open>;\<close> or \<^verbatim>\<open>}\<close> that holds a colon is a declaration of a property and its value.

  The reader goes through the text one character at a time. \<open>comment_step\<close> is the
  part that recognises comments: it passes on the characters that are not in one.
\<close>

datatype comment_state = Code | Slash | Comment | Star

fun comment_step :: "comment_state \<Rightarrow> char \<Rightarrow> string \<times> comment_state" where
  "comment_step Code c = (if c = CHR ''/'' then ([], Slash) else ([c], Code))"
| "comment_step Slash c =
     (if c = CHR ''*'' then ([], Comment)
      else if c = CHR ''/'' then (''/'', Slash)
      else ([CHR ''/'', c], Code))"
| "comment_step Comment c = (if c = CHR ''*'' then ([], Star) else ([], Comment))"
| "comment_step Star c =
     (if c = CHR ''/'' then ([], Code)
      else if c = CHR ''*'' then ([], Star)
      else ([], Comment))"

definition css_space :: "char \<Rightarrow> bool" where
  "css_space c \<longleftrightarrow> c = CHR '' '' \<or> c = CHR ''\<newline>'' \<or> c = CHR 0x09 \<or> c = CHR 0x0D"

definition trim :: "string \<Rightarrow> string" where
  "trim s = rev (dropWhile css_space (rev (dropWhile css_space s)))"

text \<open>
  \<open>cut\<close> takes the characters passed on and the text read since the last cut (in
  reverse); at \<^verbatim>\<open>{\<close>, \<^verbatim>\<open>;\<close> or \<^verbatim>\<open>}\<close> it gives out that text, trimmed, with the character that
  ended it.
\<close>

fun cut :: "string \<Rightarrow> string \<Rightarrow> (string \<times> char) list \<times> string" where
  "cut acc [] = ([], acc)"
| "cut acc (c # cs) =
     (if c = CHR ''{'' \<or> c = CHR '';'' \<or> c = CHR ''}''
      then (case cut [] cs of (pieces, acc') \<Rightarrow> ((trim (rev acc), c) # pieces, acc'))
      else cut (c # acc) cs)"

fun css_scan ::
  "comment_state \<times> string \<Rightarrow> string \<Rightarrow> (string \<times> char) list \<times> (comment_state \<times> string)" where
  "css_scan st [] = ([], st)"
| "css_scan st (c # cs) =
     (case comment_step (fst st) c of
        (passed, cm) \<Rightarrow>
          (case cut (snd st) passed of
             (pieces, acc) \<Rightarrow>
               (case css_scan (cm, acc) cs of
                  (later, st') \<Rightarrow> (pieces @ later, st'))))"

definition split_on :: "char \<Rightarrow> string \<Rightarrow> string list" where
  "split_on c s = foldr (\<lambda>x parts. if x = c then [] # parts else (x # hd parts) # tl parts) s [[]]"

definition css_declaration :: "string \<Rightarrow> (string \<times> string) list" where
  "css_declaration t =
     (if CHR '':'' \<in> set t
      then [(trim (takeWhile (\<lambda>x. x \<noteq> CHR '':'') t),
             trim (tl (dropWhile (\<lambda>x. x \<noteq> CHR '':'') t)))]
      else [])"

type_synonym css_rule = "string list \<times> (string \<times> string) list"

fun css_assemble ::
  "(string \<times> char) list \<Rightarrow> string list \<Rightarrow> (string \<times> string) list \<Rightarrow> css_rule list" where
  "css_assemble [] sels decls = []"
| "css_assemble ((t, d) # pieces) sels decls =
     (if d = CHR ''{'' then css_assemble pieces (map trim (split_on CHR '','' t)) []
      else if d = CHR '';'' then css_assemble pieces sels (decls @ css_declaration t)
      else (sels, decls @ css_declaration t) # css_assemble pieces [] [])"

definition css_rules :: "string \<Rightarrow> css_rule list" where
  "css_rules text = css_assemble (fst (css_scan (Code, []) text)) [] []"

text \<open>
  The declarations that apply to a selector, in the order of the text, and the value a
  property ends up with: the last one declared.
\<close>

definition css_declarations :: "css_rule list \<Rightarrow> string \<Rightarrow> (string \<times> string) list" where
  "css_declarations rules sel = concat (map snd (filter (\<lambda>r. sel \<in> set (fst r)) rules))"

definition css_value :: "css_rule list \<Rightarrow> string \<Rightarrow> string \<Rightarrow> string option" where
  "css_value rules sel prop =
     (case filter (\<lambda>d. fst d = prop) (css_declarations rules sel) of
        [] \<Rightarrow> None
      | d # ds \<Rightarrow> Some (snd (last (d # ds))))"

text \<open>The same reading, one line of text after the other.\<close>

fun css_scan_lines ::
  "comment_state \<times> string \<Rightarrow> string list \<Rightarrow> (string \<times> char) list \<times> (comment_state \<times> string)" where
  "css_scan_lines st [] = ([], st)"
| "css_scan_lines st (l # ls) =
     (case css_scan st l of
        (pieces, st1) \<Rightarrow>
          (case css_scan_lines st1 ls of
             (later, st2) \<Rightarrow> (pieces @ later, st2)))"

text \<open>The stylesheet of lines 37-127 as a table of rules.\<close>

definition stylesheet_rules :: "css_rule list" where
  "stylesheet_rules =
    [([''body''],
      [(''font-family'', ''Arial, Helvetica, sans-serif''),
       (''line-height'', ''1.2''),
       (''font-size'', ''9pt''),
       (''margin'', ''0.2in'')]),
     ([''p''],
      [(''margin-top'', ''0''),
       (''margin-bottom'', ''0.08em''),
       (''padding'', ''0'')]),
     ([''ul'', ''ol''],
      [(''padding-left'', ''18px''),
       (''margin-top'', ''0.05em''),
       (''margin-bottom'', ''0.1em''),
       (''padding-top'', ''0''),
       (''padding-bottom'', ''0'')]),
     ([''li''],
      [(''margin-top'', ''0''),
       (''margin-bottom'', ''0''),
       (''padding-top'', ''0''),
       (''padding-bottom'', ''0'')]),
     ([''h1''],
      [(''margin-top'', ''0''),
       (''margin-bottom'', ''0.1em''),
       (''padding-bottom'', ''0''),
       (''text-align'', ''center''),
       (''font-size'', ''1.6em''),
       (''line-height'', ''1.2'')]),
     ([''h2''],
      [(''font-size'', ''1.15em''),
       (''margin-top'', ''0.6em''),
       (''margin-bottom'', ''0.1em''),
       (''padding-bottom'', ''0.05em''),
       (''border-bottom'', ''0.5px solid #ccc''),
       (''line-height'', ''1.2'')]),
     ([''h3'', ''h4'', ''h5'', ''h6''],
      [(''font-size'', ''1.0em''),
       (''margin-top'', ''0.4em''),
       (''margin-bottom'', ''0.05em''),
       (''line-height'', ''1.2''),
       (''padding'', ''0''),
       (''font-weight'', ''bold'')]),
     ([''code''],
      [(''background-color'', ''#f0f0f0''),
       (''padding'', ''1px 3px''),
       (''border-radius'', ''3px''),
       (''font-family'', ''monospace''),
       (''font-size'', ''0.9em'')]),
     ([''pre''],
      [(''background-color'', ''#f0f0f0''),
       (''padding'', ''5px''),
       (''border-radius'', ''4px''),
       (''overflow-x'', ''auto''),
       (''font-family'', ''monospace''),
       (''font-size'', ''0.85em''),
       (''white-space'', ''pre-wrap''),
       (''word-wrap'', ''break-word''),
       (''margin-top'', ''0.3em''),
       (''margin-bottom'', ''0.3em'')]),
     ([''blockquote''],
      [(''border-left'', ''2px solid #ccc''),
       (''padding-left'', ''10px''),
       (''margin-left'', ''0''),
       (''margin-top'', ''0.3em''),
       (''margin-bottom'', ''0.3em''),
       (''color'', ''#555''),
       (''font-size'', ''0.95em'')]),
     ([''table''],
      [(''border-collapse'', ''collapse''),
       (''width'', ''100%''),
       (''margin-bottom'', ''0.5em''),
       (''border'', ''1px solid #ddd'')]),
     ([''th'', ''td''],
      [(''border'', ''1px solid #ddd''),
       (''padding'', ''4px''),
       (''text-align'', ''left''),
       (''font-size'', ''0.9em'')]),
     ([''th''],
      [(''background-color'', ''#f2f2f2''),
       (''font-weight'', ''bold'')]),
     ([''img''],
      [(''max-width'', ''100%''),
       (''height'', ''auto''),
       (''display'', ''block''),
       (''margin-top'', ''0.5em''),
       (''margin-bottom'', ''0.5em'')]),
     ([''a''],
      [(''color'', ''#0066cc''),
       (''text-decoration'', ''none'')]),
     ([''a:hover''],
      [(''text-decoration'', ''underline'')]),
     ([''@page''],
      [(''margin'', ''0.2in'')])]"

section \<open>The f-string evaluated\<close>

text \<open>
  A piece of text that is read without a syntax error is read the same way in front
  of any other text, so the template can be read line by line.
\<close>

lemma no_error_Chr: "Syntax_error \<notin> set (map Chr s)"
  by (induction s) auto

lemma dropWhile_append_found:
  "dropWhile P xs = y # ys \<Longrightarrow> dropWhile P (xs @ zs) = y # ys @ zs"
  by (induction xs) (auto split: if_splits)

lemma takeWhile_append_found:
  "dropWhile P xs = y # ys \<Longrightarrow> takeWhile P (xs @ zs) = takeWhile P xs"
  by (induction xs) (auto split: if_splits)

lemma fstring_tokens_append:
  "Syntax_error \<notin> set (fstring_tokens l) \<Longrightarrow>
   fstring_tokens (l @ r) = fstring_tokens l @ fstring_tokens r"
proof (induction l rule: fstring_tokens.induct)
  case 1
  show ?case by simp
next
  case (2 c cs)
  show ?case
  proof (cases "c = CHR ''{''")
    case open_brace: True
    show ?thesis
    proof (cases cs)
      case Nil
      with open_brace "2.prems" show ?thesis by simp
    next
      case (Cons d ds)
      show ?thesis
      proof (cases "d = CHR ''{''")
        case True
        with open_brace Cons "2.prems" "2.IH"(1) show ?thesis by simp
      next
        case False
        show ?thesis
        proof (cases "dropWhile (\<lambda>x. x \<noteq> CHR ''}'') cs")
          case Nil
          with open_brace Cons False "2.prems" show ?thesis by simp
        next
          case found: (Cons y rest)
          have "Syntax_error \<notin> set (fstring_tokens rest)"
            using open_brace Cons False found "2.prems" by simp
          then have "fstring_tokens (rest @ r) = fstring_tokens rest @ fstring_tokens r"
            using "2.IH"(2) open_brace Cons False found by simp
          moreover have "dropWhile (\<lambda>x. x \<noteq> CHR ''}'') (cs @ r) = y # rest @ r"
            using found by (rule dropWhile_append_found)
          moreover have "takeWhile (\<lambda>x. x \<noteq> CHR ''}'') (cs @ r) = takeWhile (\<lambda>x. x \<noteq> CHR ''}'') cs"
            using found by (rule takeWhile_append_found)
          ultimately show ?thesis
            using open_brace Cons False found by simp
        qed
      qed
    qed
  next
    case not_open: False
    show ?thesis
    proof (cases "c = CHR ''}''")
      case close_brace: True
      show ?thesis
      proof (cases cs)
        case Nil
        with close_brace "2.prems" show ?thesis by simp
      next
        case (Cons d ds)
        show ?thesis
        proof (cases "d = CHR ''}''")
          case True
          with close_brace Cons "2.prems" "2.IH"(3) show ?thesis by simp
        next
          case False
          with close_brace Cons "2.prems" show ?thesis by simp
        qed
      qed
    next
      case False
      with not_open "2.prems" "2.IH"(4) show ?thesis by simp
    qed
  qed
qed

lemma fstring_tokens_concat:
  "\<forall>l \<in> set ls. Syntax_error \<notin> set (fstring_tokens l) \<Longrightarrow>
   fstring_tokens (concat ls) = concat (map fstring_tokens ls)"
  by (induction ls) (simp_all add: fstring_tokens_append)

lemma template_line_tokens:
  "map fstring_tokens html_template_lines =
     map (map Chr) (shell_open_lines @ stylesheet_lines @ butlast shell_mid_lines) @
     [map Chr (last shell_mid_lines) @ [Replacement_field ''html_content''] @
      map Chr (hd shell_close_lines)] @
     map (map Chr) (tl shell_close_lines)"
  by code_simp

lemma shell_mid_lines_split: "shell_mid_lines = butlast shell_mid_lines @ [last shell_mid_lines]"
  by (simp add: shell_mid_lines_def)

lemma shell_close_lines_split: "shell_close_lines = hd shell_close_lines # tl shell_close_lines"
  by (simp add: shell_close_lines_def)

lemma template_tokens:
  "fstring_tokens html_template_src =
     map Chr html_prefix @ [Replacement_field ''html_content''] @ map Chr html_suffix"
proof -
  have ok: "\<forall>l \<in> set html_template_lines. Syntax_error \<notin> set (fstring_tokens l)"
  proof
    fix l assume "l \<in> set html_template_lines"
    then have "fstring_tokens l \<in> set (map fstring_tokens html_template_lines)" by simp
    then show "Syntax_error \<notin> set (fstring_tokens l)"
      unfolding template_line_tokens by (auto simp: no_error_Chr)
  qed
  have "fstring_tokens html_template_src = concat (map fstring_tokens html_template_lines)"
    unfolding html_template_src_def using ok by (rule fstring_tokens_concat)
  also have "\<dots> = map Chr (concat (shell_open_lines @ stylesheet_lines @ butlast shell_mid_lines)) @
      map Chr (last shell_mid_lines) @ [Replacement_field ''html_content''] @
      map Chr (hd shell_close_lines) @ map Chr (concat (tl shell_close_lines))"
    unfolding template_line_tokens by (simp only: concat_append concat.simps map_concat append_assoc append_Nil2 map_append)
  also have "\<dots> = map Chr (concat shell_open_lines @ stylesheet @ concat (butlast shell_mid_lines @ [last shell_mid_lines])) @
      [Replacement_field ''html_content''] @
      map Chr (concat (hd shell_close_lines # tl shell_close_lines))"
    by (simp only: stylesheet_def concat_append concat.simps map_append append_assoc append_Nil2)
  finally show ?thesis
    unfolding html_prefix_def html_suffix_def
    using shell_mid_lines_split shell_close_lines_split by simp
qed

lemma fstring_eval_Chr:
  "fstring_eval (map Chr s @ ts) env =
     (case fstring_eval ts env of Raise e \<Rightarrow> Raise e | Return r \<Rightarrow> Return (ascii s @ r))"
  by (induction s) (auto simp: ascii_def split: result.splits)

lemma html_template_eq:
  "html_template html_content = Return (ascii html_prefix @ html_content @ ascii html_suffix)"
proof -
  have "Syntax_error \<notin> set (fstring_tokens html_template_src)"
    unfolding template_tokens by (auto simp: no_error_Chr)
  moreover have "fstring_eval (map Chr html_suffix) [''html_content'' \<mapsto> html_content] =
      Return (ascii html_suffix)"
    using fstring_eval_Chr [of html_suffix "[]"] by simp
  ultimately show ?thesis
    unfolding html_template_def fstring_def Let_def template_tokens
    by (simp add: fstring_eval_Chr)
qed

section \<open>Encoding\<close>




lemma utf8_bytes_append: "utf8_bytes (a @ b) = utf8_bytes a @ utf8_bytes b"
  by (simp add: utf8_bytes_def)

lemma encode_from_encodable: "encodable s \<Longrightarrow> encode_from i s = Return (utf8_bytes s)"
  by (induction s arbitrary: i) (auto simp: encodable_def utf8_bytes_def)

lemma encode_from_not_encodable:
  "\<not> encodable s \<Longrightarrow> \<exists>c j. encode_from i s = Raise (UnicodeEncodeError c j)"
proof (induction s arbitrary: i)
  case Nil
  then show ?case by (simp add: encodable_def)
next
  case (Cons c cs)
  show ?case
  proof (cases "utf8_char c")
    case None
    then show ?thesis by simp
  next
    case (Some bs)
    with Cons.prems have "\<not> encodable cs" by (simp add: encodable_def)
    then obtain c' j where "encode_from (Suc i) cs = Raise (UnicodeEncodeError c' j)"
      using Cons.IH by blast
    with Some show ?thesis by simp
  qed
qed


lemma encode_utf8_raises:
  "encode_utf8 s = Raise e \<Longrightarrow> is_Exception e"
proof (cases "encodable s")
  case True
  then show "encode_utf8 s = Raise e \<Longrightarrow> is_Exception e"
    by (simp add: encode_utf8_def encode_from_encodable)
next
  case False
  then obtain c j where "encode_from 0 s = Raise (UnicodeEncodeError c j)"
    using encode_from_not_encodable by blast
  then show "encode_utf8 s = Raise e \<Longrightarrow> is_Exception e"
    by (auto simp: encode_utf8_def)
qed

section \<open>The outcomes of \<^verbatim>\<open>markdown_to_pdf_bytes\<close>\<close>


lemma parser_raises:
  "markdown s [''extra'', ''smarty'', ''fenced_code''] = Raise e \<Longrightarrow>
   markdown_to_pdf_bytes markdown CreatePDF s =
     (if is_Exception e
      then (Return None,
            [Call_markdown s [''extra'', ''smarty'', ''fenced_code''],
             Log ERROR ''An unexpected error occurred during PDF conversion: ''
               (Arg_exception e) True])
      else (Raise e, [Call_markdown s [''extra'', ''smarty'', ''fenced_code'']]))"
  by (simp add: markdown_to_pdf_bytes_def try_block_def)

lemma encoding_raises:
  assumes "markdown s [''extra'', ''smarty'', ''fenced_code''] = Return html_content"
    and "encode_utf8 (ascii html_prefix @ html_content @ ascii html_suffix) = Raise e"
  shows "markdown_to_pdf_bytes markdown CreatePDF s =
     (Return None,
      [Call_markdown s [''extra'', ''smarty'', ''fenced_code''],
       Log ERROR ''An unexpected error occurred during PDF conversion: ''
         (Arg_exception e) True])"
proof -
  have "is_Exception e" using assms(2) by (rule encode_utf8_raises)
  with assms show ?thesis
    by (simp add: markdown_to_pdf_bytes_def try_block_def html_template_eq)
qed

lemma engine_called:
  assumes "markdown s [''extra'', ''smarty'', ''fenced_code''] = Return html_content"
    and "encode_utf8 (ascii html_prefix @ html_content @ ascii html_suffix) = Return src"
    and "CreatePDF src BytesIO ''utf-8'' = (outcome, written)"
  shows "markdown_to_pdf_bytes markdown CreatePDF s =
     (case outcome of
        Raise e \<Rightarrow>
          if is_Exception e
          then (Return None,
                [Call_markdown s [''extra'', ''smarty'', ''fenced_code''],
                 Call_CreatePDF src BytesIO ''utf-8'',
                 Log ERROR ''An unexpected error occurred during PDF conversion: ''
                   (Arg_exception e) True])
          else (Raise e,
                [Call_markdown s [''extra'', ''smarty'', ''fenced_code''],
                 Call_CreatePDF src BytesIO ''utf-8''])
      | Return st \<Rightarrow>
          if err st \<noteq> 0
          then (Return None,
                [Call_markdown s [''extra'', ''smarty'', ''fenced_code''],
                 Call_CreatePDF src BytesIO ''utf-8'',
                 Log ERROR ''xhtml2pdf Error converting to PDF: '' (Arg_int (err st)) False])
          else (Return (Some (contents written)),
                [Call_markdown s [''extra'', ''smarty'', ''fenced_code''],
                 Call_CreatePDF src BytesIO ''utf-8'',
                 Log INFO ''PDF conversion successful (compact styling).'' Arg_none False]))"
  using assms
  by (simp add: markdown_to_pdf_bytes_def try_block_def html_template_eq getvalue_def seek_def
      split: result.splits)



lemma outcome_cases:
  obtains (parser) e where "markdown s [''extra'', ''smarty'', ''fenced_code''] = Raise e"
  | (encoding) h e where "markdown s [''extra'', ''smarty'', ''fenced_code''] = Return h"
      and "encode_utf8 (ascii html_prefix @ h @ ascii html_suffix) = Raise e"
  | (engine) outcome written where "renders markdown CreatePDF s outcome written"
proof (cases "markdown s [''extra'', ''smarty'', ''fenced_code'']")
  case (Raise e)
  then show ?thesis by (rule parser)
next
  case h: (Return h)
  show ?thesis
  proof (cases "encode_utf8 (ascii html_prefix @ h @ ascii html_suffix)")
    case (Raise e)
    with h show ?thesis by (rule encoding)
  next
    case (Return src)
    obtain outcome written where "CreatePDF src BytesIO ''utf-8'' = (outcome, written)"
      by (cases "CreatePDF src BytesIO ''utf-8''")
    with h Return have "renders markdown CreatePDF s outcome written"
      by (auto simp: renders_def html_template_eq)
    then show ?thesis by (rule engine)
  qed
qed



section \<open>Blank input\<close>

text \<open>
  \<^verbatim>\<open>not markdown_input.strip()\<close> of line 177 holds exactly of the strings that are empty or
  consist of whitespace only.
\<close>

lemma strip_eq_Nil_iff: "strip s = [] \<longleftrightarrow> list_all isspace s"
proof
  assume "list_all isspace s"
  then show "strip s = []"
    by (auto simp: strip_def list_all_iff dest: set_dropWhileD)
next
  assume empty: "strip s = []"
  show "list_all isspace s"
  proof (rule ccontr)
    assume "\<not> list_all isspace s"
    then have "dropWhile isspace s \<noteq> []"
      by (auto simp: list_all_iff)
    then obtain c cs where cs: "dropWhile isspace s = c # cs"
      by (cases "dropWhile isspace s") auto
    then have "\<not> isspace c"
      using hd_dropWhile [of isspace s] by simp
    then have "dropWhile isspace (rev (c # cs)) \<noteq> []"
      by auto
    with empty cs show False
      by (simp add: strip_def)
  qed
qed

section \<open>The stylesheet read\<close>

text \<open>
  Reading a text is reading its lines one after the other, which is how the stylesheet
  is read here; the result is the table \<open>stylesheet_rules\<close>.
\<close>

lemma css_scan_append:
  "css_scan st (a @ b) =
     (case css_scan st a of
        (pieces, st1) \<Rightarrow> (case css_scan st1 b of (later, st2) \<Rightarrow> (pieces @ later, st2)))"
  by (induction a arbitrary: st) (auto split: prod.splits)

lemma css_scan_concat: "css_scan st (concat ls) = css_scan_lines st ls"
  by (induction ls arbitrary: st) (auto simp: css_scan_append split: prod.splits)

lemma stylesheet_pieces:
  "css_assemble (fst (css_scan_lines (Code, []) stylesheet_lines)) [] [] = stylesheet_rules"
  by code_simp

lemma stylesheet_reads: "css_rules stylesheet = stylesheet_rules"
  by (simp only: css_rules_def stylesheet_def css_scan_concat stylesheet_pieces)

lemma stylesheet_values:
  "css_value stylesheet_rules ''@page'' ''margin'' = Some ''0.2in''"
  "css_value stylesheet_rules ''body'' ''margin'' = Some ''0.2in''"
  "css_value stylesheet_rules ''body'' ''font-family'' = Some ''Arial, Helvetica, sans-serif''"
  "css_value stylesheet_rules ''body'' ''font-size'' = Some ''9pt''"
  "css_value stylesheet_rules ''body'' ''line-height'' = Some ''1.2''"
  "css_value stylesheet_rules ''p'' ''margin-top'' = Some ''0''"
  "css_value stylesheet_rules ''p'' ''margin-bottom'' = Some ''0.08em''"
  "css_value stylesheet_rules ''ul'' ''padding-left'' = Some ''18px''"
  "css_value stylesheet_rules ''ol'' ''padding-left'' = Some ''18px''"
  "css_value stylesheet_rules ''li'' ''margin-top'' = Some ''0''"
  "css_value stylesheet_rules ''li'' ''margin-bottom'' = Some ''0''"
  "css_value stylesheet_rules ''li'' ''padding-top'' = Some ''0''"
  "css_value stylesheet_rules ''li'' ''padding-bottom'' = Some ''0''"
  "css_value stylesheet_rules ''h1'' ''text-align'' = Some ''center''"
  "css_value stylesheet_rules ''h1'' ''font-size'' = Some ''1.6em''"
  "css_value stylesheet_rules ''h2'' ''font-size'' = Some ''1.15em''"
  "css_value stylesheet_rules ''h2'' ''border-bottom'' = Some ''0.5px solid #ccc''"
  "css_value stylesheet_rules ''h2'' ''margin-top'' = Some ''0.6em''"
  "css_value stylesheet_rules ''h3'' ''font-size'' = Some ''1.0em''"
  "css_value stylesheet_rules ''h3'' ''font-weight'' = Some ''bold''"
  "css_value stylesheet_rules ''h3'' ''margin-top'' = Some ''0.4em''"
  "css_value stylesheet_rules ''h4'' ''font-size'' = Some ''1.0em''"
  "css_value stylesheet_rules ''h4'' ''font-weight'' = Some ''bold''"
  "css_value stylesheet_rules ''h4'' ''margin-top'' = Some ''0.4em''"
  "css_value stylesheet_rules ''h5'' ''font-size'' = Some ''1.0em''"
  "css_value stylesheet_rules ''h5'' ''font-weight'' = Some ''bold''"
  "css_value stylesheet_rules ''h5'' ''margin-top'' = Some ''0.4em''"
  "css_value stylesheet_rules ''h6'' ''font-size'' = Some ''1.0em''"
  "css_value stylesheet_rules ''h6'' ''font-weight'' = Some ''bold''"
  "css_value stylesheet_rules ''h6'' ''margin-top'' = Some ''0.4em''"
  "css_value stylesheet_rules ''code'' ''background-color'' = Some ''#f0f0f0''"
  "css_value stylesheet_rules ''code'' ''font-family'' = Some ''monospace''"
  "css_value stylesheet_rules ''pre'' ''background-color'' = Some ''#f0f0f0''"
  "css_value stylesheet_rules ''pre'' ''font-family'' = Some ''monospace''"
  "css_value stylesheet_rules ''table'' ''border-collapse'' = Some ''collapse''"
  "css_value stylesheet_rules ''table'' ''width'' = Some ''100%''"
  "css_value stylesheet_rules ''th'' ''background-color'' = Some ''#f2f2f2''"
  "css_value stylesheet_rules ''img'' ''max-width'' = Some ''100%''"
  "css_value stylesheet_rules ''a'' ''color'' = Some ''#0066cc''"
  "css_value stylesheet_rules ''a'' ''text-decoration'' = Some ''none''"
  "css_value stylesheet_rules ''a:hover'' ''text-decoration'' = Some ''underline''"
  by code_simp+

text \<open>
  The stylesheet is the content of the \<^verbatim>\<open>style\<close> element that the constant prefix of every
  styled document holds.
\<close>

lemma style_element:
  "html_template h =
     Return (ascii (concat (butlast shell_open_lines)) @
             ascii (''            <style>\<newline>'' @ stylesheet @ ''            </style>\<newline>'') @
             ascii (concat (tl shell_mid_lines)) @ h @ ascii (concat shell_close_lines))"
proof -
  have "shell_open_lines = butlast shell_open_lines @ [''            <style>\<newline>'']"
    by (simp add: shell_open_lines_def)
  then have "concat shell_open_lines =
      concat (butlast shell_open_lines) @ ''            <style>\<newline>''"
    by (metis concat.simps(1) concat.simps(2) concat_append append_Nil2)
  moreover have "shell_mid_lines = ''            </style>\<newline>'' # tl shell_mid_lines"
    by (simp add: shell_mid_lines_def)
  then have "concat shell_mid_lines = ''            </style>\<newline>'' @ concat (tl shell_mid_lines)"
    by (metis concat.simps(2))
  ultimately show ?thesis
    by (simp only: html_template_eq html_prefix_def html_suffix_def ascii_def map_append append_assoc)
qed

section \<open>The claims\<close>








text \<open>
  C3. When the button is pressed on an input that is empty or whitespace only, the
  script shows its warning and calls neither library: the trace is empty, so the layout
  engine is not invoked. The guard is in the script, the caller of
  \<^verbatim>\<open>markdown_to_pdf_bytes\<close>; on any other input the script does call the function, which
  starts with the parser.
\<close>

theorem blank_input_short_circuits:
  "(list_all isspace s \<longrightarrow>
      conversion_logic markdown CreatePDF True s timestamp =
        (Return [St_warning ([0x26A0, 0xFE0F] @
            ascii '' Please enter some Markdown text in the input area first.'')], [])) \<and>
   (\<not> list_all isspace s \<longrightarrow>
      hd (snd (conversion_logic markdown CreatePDF True s timestamp)) =
        Call_markdown s [''extra'', ''smarty'', ''fenced_code'']) \<and>
   conversion_logic markdown CreatePDF False s timestamp = (Return [], [])"
proof (intro conjI impI)
  assume "list_all isspace s"
  then show "conversion_logic markdown CreatePDF True s timestamp =
        (Return [St_warning ([0x26A0, 0xFE0F] @
            ascii '' Please enter some Markdown text in the input area first.'')], [])"
    by (simp add: conversion_logic_def strip_eq_Nil_iff)
next
  assume "\<not> list_all isspace s"
  then have "strip s \<noteq> []"
    by (simp add: strip_eq_Nil_iff)
  moreover have "hd (snd (markdown_to_pdf_bytes markdown CreatePDF s)) =
      Call_markdown s [''extra'', ''smarty'', ''fenced_code'']"
  proof (cases rule: outcome_cases [where markdown = markdown and s = s and CreatePDF = CreatePDF])
    case (parser e)
    then show ?thesis by (simp add: parser_raises)
  next
    case (encoding h e)
    then show ?thesis by (simp add: encoding_raises)
  next
    case (engine outcome written)
    then obtain h src where "markdown s [''extra'', ''smarty'', ''fenced_code''] = Return h"
      and "encode_utf8 (ascii html_prefix @ h @ ascii html_suffix) = Return src"
      and "CreatePDF src BytesIO ''utf-8'' = (outcome, written)"
      by (auto simp: renders_def html_template_eq)
    then show ?thesis
      by (simp add: engine_called split: result.splits)
  qed
  moreover obtain r trace where "markdown_to_pdf_bytes markdown CreatePDF s = (r, trace)"
    by (cases "markdown_to_pdf_bytes markdown CreatePDF s")
  ultimately show "hd (snd (conversion_logic markdown CreatePDF True s timestamp)) =
        Call_markdown s [''extra'', ''smarty'', ''fenced_code'']"
    by (cases r) (auto simp: conversion_logic_def Let_def split: option.splits)
next
  show "conversion_logic markdown CreatePDF False s timestamp = (Return [], [])"
    by (simp add: conversion_logic_def)
qed

text \<open>
  At concrete inputs: a space, a tab, a newline, a no-break space and an ideographic
  space; and the empty string.
\<close>

theorem blank_input_short_circuits_witness:
  "list_all isspace [0x20, 0x09, 0x0A, 0xA0, 0x3000] \<and>
   conversion_logic markdown_paragraph pisa_writing True [0x20, 0x09, 0x0A, 0xA0, 0x3000]
       (ascii ''20240101_120000'') =
     (Return [St_warning ([0x26A0, 0xFE0F] @
        ascii '' Please enter some Markdown text in the input area first.'')], []) \<and>
   conversion_logic markdown_paragraph pisa_writing True [] (ascii ''20240101_120000'') =
     (Return [St_warning ([0x26A0, 0xFE0F] @
        ascii '' Please enter some Markdown text in the input area first.'')], [])"
proof -
  have "list_all isspace [0x20, 0x09, 0x0A, 0xA0, 0x3000]"
    by (simp add: isspace_def)
  moreover have "list_all isspace []"
    by simp
  ultimately show ?thesis
    using blank_input_short_circuits
      [of "[0x20, 0x09, 0x0A, 0xA0, 0x3000]" markdown_paragraph pisa_writing "ascii ''20240101_120000''"]
      blank_input_short_circuits [of "[]" markdown_paragraph pisa_writing "ascii ''20240101_120000''"]
    by blast
qed






text \<open>
  C6. Every styled document holds, in its \<^verbatim>\<open>style\<close> element, the stylesheet of the source,
  and that stylesheet declares the compact layout: page and body margin 0.2in; the body
  in a sans-serif family at 9pt with line height 1.2; paragraphs with top margin 0 and
  bottom margin 0.08em; lists with left padding 18px and items without margin or
  padding; h1 centred at 1.6em; h2 at 1.15em with a bottom border of 0.5px and a top
  margin of 0.6em; h3 to h6 at 1.0em, bold, with a top margin of 0.4em; code and pre
  shaded and monospace; tables with collapsed borders at full width, header cells
  shaded; images at most 100% wide; links coloured, underlined on hover only.
\<close>

theorem compact_stylesheet:
  "html_template h =
     Return (ascii (concat (butlast shell_open_lines)) @
             ascii (''            <style>\<newline>'' @ stylesheet @ ''            </style>\<newline>'') @
             ascii (concat (tl shell_mid_lines)) @ h @ ascii (concat shell_close_lines)) \<and>
   css_value (css_rules stylesheet) ''@page'' ''margin'' = Some ''0.2in'' \<and>
   css_value (css_rules stylesheet) ''body'' ''margin'' = Some ''0.2in'' \<and>
   css_value (css_rules stylesheet) ''body'' ''font-family'' = Some ''Arial, Helvetica, sans-serif'' \<and>
   css_value (css_rules stylesheet) ''body'' ''font-size'' = Some ''9pt'' \<and>
   css_value (css_rules stylesheet) ''body'' ''line-height'' = Some ''1.2'' \<and>
   css_value (css_rules stylesheet) ''p'' ''margin-top'' = Some ''0'' \<and>
   css_value (css_rules stylesheet) ''p'' ''margin-bottom'' = Some ''0.08em'' \<and>
   css_value (css_rules stylesheet) ''ul'' ''padding-left'' = Some ''18px'' \<and>
   css_value (css_rules stylesheet) ''ol'' ''padding-left'' = Some ''18px'' \<and>
   css_value (css_rules stylesheet) ''li'' ''margin-top'' = Some ''0'' \<and>
   css_value (css_rules stylesheet) ''li'' ''margin-bottom'' = Some ''0'' \<and>
   css_value (css_rules stylesheet) ''li'' ''padding-top'' = Some ''0'' \<and>
   css_value (css_rules stylesheet) ''li'' ''padding-bottom'' = Some ''0'' \<and>
   css_value (css_rules stylesheet) ''h1'' ''text-align'' = Some ''center'' \<and>
   css_value (css_rules stylesheet) ''h1'' ''font-size'' = Some ''1.6em'' \<and>
   css_value (css_rules stylesheet) ''h2'' ''font-size'' = Some ''1.15em'' \<and>
   css_value (css_rules stylesheet) ''h2'' ''border-bottom'' = Some ''0.5px solid #ccc'' \<and>
   css_value (css_rules stylesheet) ''h2'' ''margin-top'' = Some ''0.6em'' \<and>
   css_value (css_rules stylesheet) ''h3'' ''font-size'' = Some ''1.0em'' \<and>
   css_value (css_rules stylesheet) ''h3'' ''font-weight'' = Some ''bold'' \<and>
   css_value (css_rules stylesheet) ''h3'' ''margin-top'' = Some ''0.4em'' \<and>
   css_value (css_rules stylesheet) ''h4'' ''font-size'' = Some ''1.0em'' \<and>
   css_value (css_rules stylesheet) ''h4'' ''font-weight'' = Some ''bold'' \<and>
   css_value (css_rules stylesheet) ''h4'' ''margin-top'' = Some ''0.4em'' \<and>
   css_value (css_rules stylesheet) ''h5'' ''font-size'' = Some ''1.0em'' \<and>
   css_value (css_rules stylesheet) ''h5'' ''font-weight'' = Some ''bold'' \<and>
   css_value (css_rules stylesheet) ''h5'' ''margin-top'' = Some ''0.4em'' \<and>
   css_value (css_rules stylesheet) ''h6'' ''font-size'' = Some ''1.0em'' \<and>
   css_value (css_rules stylesheet) ''h6'' ''font-weight'' = Some ''bold'' \<and>
   css_value (css_rules stylesheet) ''h6'' ''margin-top'' = Some ''0.4em'' \<and>
   css_value (css_rules stylesheet) ''code'' ''background-color'' = Some ''#f0f0f0'' \<and>
   css_value (css_rules stylesheet) ''code'' ''font-family'' = Some ''monospace'' \<and>
   css_value (css_rules stylesheet) ''pre'' ''background-color'' = Some ''#f0f0f0'' \<and>
   css_value (css_rules stylesheet) ''pre'' ''font-family'' = Some ''monospace'' \<and>
   css_value (css_rules stylesheet) ''table'' ''border-collapse'' = Some ''collapse'' \<and>
   css_value (css_rules stylesheet) ''table'' ''width'' = Some ''100%'' \<and>
   css_value (css_rules stylesheet) ''th'' ''background-color'' = Some ''#f2f2f2'' \<and>
   css_value (css_rules stylesheet) ''img'' ''max-width'' = Some ''100%'' \<and>
   css_value (css_rules stylesheet) ''a'' ''color'' = Some ''#0066cc'' \<and>
   css_value (css_rules stylesheet) ''a'' ''text-decoration'' = Some ''none'' \<and>
   css_value (css_rules stylesheet) ''a:hover'' ''text-decoration'' = Some ''underline''"
  unfolding stylesheet_reads
  by (intro conjI style_element stylesheet_values)

text \<open>
  C10. For any two HTML strings the styled documents are the same constant prefix,
  which holds the whole stylesheet between \<^verbatim>\<open><style>\<close> and \<^verbatim>\<open></style>\<close>, then the HTML as it
  is, then the same constant suffix.
\<close>

theorem stylesheet_is_constant:
  "html_template h1 =
     Return (ascii (concat shell_open_lines) @ ascii stylesheet @ ascii (concat shell_mid_lines) @
             h1 @ ascii (concat shell_close_lines)) \<and>
   html_template h2 =
     Return (ascii (concat shell_open_lines) @ ascii stylesheet @ ascii (concat shell_mid_lines) @
             h2 @ ascii (concat shell_close_lines))"
  by (simp add: html_template_eq html_prefix_def html_suffix_def ascii_def)

end
